theory Spec2Isabelle
  imports Main "HOL-Library.AList"
begin

section \<open>Documents of the store\<close>

text \<open>
  The server (\<^verbatim>\<open>src/index.js\<close>) keeps its users, plants and orders in MongoDB
  collections and receives JSON request bodies (\<^verbatim>\<open>express.json()\<close>). A JSON value is
  null, a boolean, a number (an integer here), a string, an array or an object; a stored
  document may also hold an \<^verbatim>\<open>ObjectId\<close>, which the driver generates. A document and a
  request body are JSON objects: association lists from field names to values, in the
  order of their fields.
\<close>

datatype jval =
    JNull | JBool bool | JNum int | JStr string | JOid nat
  | JArr "jval list" | JObj "(string \<times> jval) list"

type_synonym doc = "(string \<times> jval) list"

text \<open>\<^verbatim>\<open>obj.k\<close>: \<open>None\<close> is JavaScript's \<^verbatim>\<open>undefined\<close>.\<close>

definition doc_get :: "doc \<Rightarrow> string \<Rightarrow> jval option" where
  "doc_get d k = map_of d k"

text \<open>
  \<^verbatim>\<open>obj.k = v\<close>, and one field of MongoDB's \<^verbatim>\<open>$set\<close>: an existing field is
  overwritten where it stands, a new one is added at the end.
\<close>

definition doc_set :: "string \<Rightarrow> jval \<Rightarrow> doc \<Rightarrow> doc" where
  "doc_set k v d = AList.update k v d"

text \<open>
  The driver serialises a query or update value that is \<^verbatim>\<open>undefined\<close> as
  \<^verbatim>\<open>null\<close> (the option \<^verbatim>\<open>ignoreUndefined\<close> is not set by the source).
\<close>

definition bson :: "jval option \<Rightarrow> jval" where
  "bson v = (case v of None \<Rightarrow> JNull | Some x \<Rightarrow> x)"

definition scalar :: "jval \<Rightarrow> bool" where
  "scalar v = (case v of JArr xs \<Rightarrow> False | JObj kvs \<Rightarrow> False | _ \<Rightarrow> True)"

section \<open>Filters\<close>

text \<open>
  The filters that the source hands the store are \<^verbatim>\<open>{email: v}\<close> and
  \<^verbatim>\<open>{email: {$ne: v}}\<close>, where \<open>v\<close> is whatever the token or the body holds under
  \<^verbatim>\<open>email\<close> (\<^verbatim>\<open>POST /jwt\<close> signs any body, and no handler checks a type), and
  \<^verbatim>\<open>{email: s}\<close>, \<^verbatim>\<open>{role: "admin"}\<close> and \<^verbatim>\<open>{'seller.email': s}\<close> with a
  string.

  A filter value that is a scalar selects a field by equality: the field has that value,
  or is an array with that value among its elements; \<^verbatim>\<open>null\<close> also selects a document
  without the field.
\<close>

definition equals :: "jval \<Rightarrow> jval option \<Rightarrow> bool" where
  "equals q x =
     (case x of
        None \<Rightarrow> q = JNull
      | Some v \<Rightarrow> v = q \<or> (case v of JArr xs \<Rightarrow> q \<in> set xs | _ \<Rightarrow> False))"

text \<open>
  A filter value that is an object is read by the store as an operator document when its
  field names begin with \<^verbatim>\<open>$\<close>. The operator of the source is \<^verbatim>\<open>{$ne: v}\<close>, which
  for a scalar \<open>v\<close> selects the fields that \<^verbatim>\<open>v\<close> itself does not select.
\<close>

definition ne_arg :: "jval \<Rightarrow> jval option" where
  "ne_arg q =
     (case q of
        JObj kvs \<Rightarrow>
          (case kvs of
             [(k, v)] \<Rightarrow> if k = ''$ne'' \<and> scalar v then Some v else None
           | _ \<Rightarrow> None)
      | _ \<Rightarrow> None)"

text \<open>
  What else the store does is not decided by the source, and no handler restricts what a
  client may send: every other filter value (another operator document, an embedded
  document, an array), the documents the store refuses to insert, the values it refuses to
  \<^verbatim>\<open>$set\<close>, and the collections on which the aggregation pipeline of
  \<^verbatim>\<open>/admin-stats\<close> fails. These are parameters of the model, so that a theorem holds
  whatever the store does there.
\<close>

record server =
  bad_filter :: "jval \<Rightarrow> bool"
  selects :: "jval \<Rightarrow> jval option \<Rightarrow> bool"
  bad_document :: "doc \<Rightarrow> bool"
  bad_update :: "jval \<Rightarrow> doc option \<Rightarrow> bool"
  bad_pipeline :: "doc list \<Rightarrow> bool"

text \<open>Whether the store accepts a filter value, and whether the value selects a field.\<close>

definition accepted :: "server \<Rightarrow> jval \<Rightarrow> bool" where
  "accepted srv q =
     (if scalar q then True
      else case ne_arg q of Some v \<Rightarrow> True | None \<Rightarrow> \<not> bad_filter srv q)"

definition selected :: "server \<Rightarrow> jval \<Rightarrow> jval option \<Rightarrow> bool" where
  "selected srv q x =
     (if scalar q then equals q x
      else case ne_arg q of Some v \<Rightarrow> \<not> equals v x | None \<Rightarrow> selects srv q x)"

text \<open>The filter \<^verbatim>\<open>{k: v}\<close> on a document.\<close>

definition matches :: "server \<Rightarrow> string \<Rightarrow> jval option \<Rightarrow> doc \<Rightarrow> bool" where
  "matches srv k v d = selected srv (bson v) (doc_get d k)"

text \<open>
  The filter \<^verbatim>\<open>{'seller.email': s}\<close> with a string: the path leads through the
  \<^verbatim>\<open>seller\<close> field, an embedded document or an array of them.
\<close>

fun subdocs :: "jval \<Rightarrow> doc list" where
  "subdocs (JObj kvs) = [kvs]"
| "subdocs (JArr xs) = concat (map (\<lambda>x. case x of JObj kvs \<Rightarrow> [kvs] | _ \<Rightarrow> []) xs)"
| "subdocs v = []"

definition seller_email :: "string \<Rightarrow> doc \<Rightarrow> bool" where
  "seller_email s d =
     (case doc_get d ''seller'' of
        None \<Rightarrow> False
      | Some v \<Rightarrow> list_ex (\<lambda>sub. equals (JStr s) (doc_get sub ''email'')) (subdocs v))"

section \<open>Collections\<close>

text \<open>
  A collection is the list of its documents in natural order. An operation of the store
  returns its result or the error with which the driver rejects the promise.
\<close>

datatype jwt_error =
    MissingSecret | InvalidClaim | ExpConflict
  | JsonWebTokenError | NotBeforeError | TokenExpiredError

datatype error = Jwt jwt_error | BadQuery | BadDocument | DuplicateKey | BadUpdate | BadPipeline

definition findOne :: "server \<Rightarrow> string \<Rightarrow> jval option \<Rightarrow> doc list \<Rightarrow> error + doc option" where
  "findOne srv k v c =
     (if accepted srv (bson v) then Inr (List.find (matches srv k v) c) else Inl BadQuery)"

definition find_all :: "server \<Rightarrow> string \<Rightarrow> jval option \<Rightarrow> doc list \<Rightarrow> error + doc list" where
  "find_all srv k v c =
     (if accepted srv (bson v) then Inr (filter (matches srv k v) c) else Inl BadQuery)"

text \<open>
  \<^verbatim>\<open>updateOne(filter, {$set: ...})\<close> changes the first document that the filter
  selects.
\<close>

fun update_first :: "(doc \<Rightarrow> bool) \<Rightarrow> (doc \<Rightarrow> doc) \<Rightarrow> doc list \<Rightarrow> doc list" where
  "update_first q f [] = []"
| "update_first q f (d # ds) = (if q d then f d # ds else d # update_first q f ds)"

definition updateOne ::
  "server \<Rightarrow> string \<Rightarrow> jval option \<Rightarrow> (doc \<Rightarrow> doc) \<Rightarrow> doc list \<Rightarrow> error + doc list" where
  "updateOne srv k v f c =
     (if accepted srv (bson v) then Inr (update_first (matches srv k v) f c) else Inl BadQuery)"

text \<open>
  \<^verbatim>\<open>insertOne(doc)\<close>: the driver gives a document without an \<^verbatim>\<open>_id\<close> (or with
  \<^verbatim>\<open>_id: null\<close>) a new \<^verbatim>\<open>ObjectId\<close>; the store refuses a document whose \<^verbatim>\<open>_id\<close> it
  already holds in the collection. The result carries the \<^verbatim>\<open>_id\<close> of the stored
  document.
\<close>

definition with_id :: "nat \<Rightarrow> doc \<Rightarrow> doc" where
  "with_id n d =
     (if doc_get d ''_id'' = None \<or> doc_get d ''_id'' = Some JNull
      then doc_set ''_id'' (JOid n) d else d)"

definition insertOne :: "server \<Rightarrow> nat \<Rightarrow> doc \<Rightarrow> doc list \<Rightarrow> error + doc list \<times> jval" where
  "insertOne srv n d c =
     (if bad_document srv (with_id n d) then Inl BadDocument
      else if list_ex (\<lambda>x. doc_get x ''_id'' = doc_get (with_id n d) ''_id'') c
      then Inl DuplicateKey
      else Inr (c @ [with_id n d], bson (doc_get (with_id n d) ''_id'')))"

record db =
  userCollection :: "doc list"
  plantsCollection :: "doc list"
  ordersCollection :: "doc list"

section \<open>Token service\<close>

text \<open>
  The source signs and verifies with the \<^verbatim>\<open>jsonwebtoken\<close> package. A token is
  modelled symbolically: a signed token is its payload together with the key that signed
  it, and the signature check compares that key with the verifier's secret. Any other
  cookie value is \<open>Malformed\<close>.
\<close>

datatype credential = Malformed string | Signed doc string

record env =
  NODE_ENV :: "string option"
  ACCESS_TOKEN_SECRET :: "string option"

text \<open>\<^verbatim>\<open>expiresIn: "365d"\<close>, in seconds.\<close>

definition expiresIn :: int where
  "expiresIn = 365 * 86400"

text \<open>A registered claim (\<^verbatim>\<open>iat\<close>, \<^verbatim>\<open>exp\<close>, \<^verbatim>\<open>nbf\<close>) of a payload must be a number.\<close>

definition claim_ok :: "jval option \<Rightarrow> bool" where
  "claim_ok v = (case v of None \<Rightarrow> True | Some (JNum n) \<Rightarrow> True | Some x \<Rightarrow> False)"

text \<open>
  \<^verbatim>\<open>jwt.sign(payload, secret, {expiresIn: "365d"})\<close> at the time \<open>now\<close> (seconds).
  Called without a callback it throws: on a missing or empty secret, on a registered claim
  that is not a number, and on a payload that brings an \<^verbatim>\<open>exp\<close> of its own beside
  the option \<^verbatim>\<open>expiresIn\<close> (the package lets a claim be given in the payload or as
  an option, not in both places). Otherwise it copies the payload, stamps \<^verbatim>\<open>iat\<close>
  (the payload's own non-zero \<^verbatim>\<open>iat\<close> if it has one, the clock otherwise) and
  \<^verbatim>\<open>exp = iat + expiresIn\<close>, and signs.
\<close>

definition timestamp :: "doc \<Rightarrow> int \<Rightarrow> int" where
  "timestamp payload now =
     (case doc_get payload ''iat'' of
        Some (JNum n) \<Rightarrow> if n = 0 then now else n
      | _ \<Rightarrow> now)"

definition jwt_sign :: "doc \<Rightarrow> string option \<Rightarrow> int \<Rightarrow> jwt_error + credential" where
  "jwt_sign payload secret now =
     (case secret of
        None \<Rightarrow> Inl MissingSecret
      | Some key \<Rightarrow>
          if key = [] then Inl MissingSecret
          else if \<not> (claim_ok (doc_get payload ''iat'') \<and> claim_ok (doc_get payload ''exp'')
                      \<and> claim_ok (doc_get payload ''nbf''))
          then Inl InvalidClaim
          else if doc_get payload ''exp'' \<noteq> None then Inl ExpConflict
          else
            Inr (Signed
              (doc_set ''exp'' (JNum (timestamp payload now + expiresIn))
                 (doc_set ''iat'' (JNum (timestamp payload now)) payload))
              key))"

text \<open>
  \<^verbatim>\<open>jwt.verify(token, secret, callback)\<close> at the time \<open>now\<close>: the decoded payload, or
  the error handed to the callback.
\<close>

definition not_before :: "doc \<Rightarrow> int \<Rightarrow> jwt_error option" where
  "not_before payload now =
     (case doc_get payload ''nbf'' of
        None \<Rightarrow> None
      | Some (JNum n) \<Rightarrow> if now < n then Some NotBeforeError else None
      | Some x \<Rightarrow> Some JsonWebTokenError)"

definition expired :: "doc \<Rightarrow> int \<Rightarrow> jwt_error option" where
  "expired payload now =
     (case doc_get payload ''exp'' of
        None \<Rightarrow> None
      | Some (JNum e) \<Rightarrow> if e \<le> now then Some TokenExpiredError else None
      | Some x \<Rightarrow> Some JsonWebTokenError)"

definition jwt_verify :: "credential \<Rightarrow> string option \<Rightarrow> int \<Rightarrow> jwt_error + doc" where
  "jwt_verify token secret now =
     (case token of
        Malformed s \<Rightarrow> Inl JsonWebTokenError
      | Signed payload key \<Rightarrow>
          (case secret of
             None \<Rightarrow> Inl JsonWebTokenError
           | Some sec \<Rightarrow>
               if sec = [] \<or> key \<noteq> sec then Inl JsonWebTokenError
               else
                 (case not_before payload now of
                    Some e \<Rightarrow> Inl e
                  | None \<Rightarrow>
                      (case expired payload now of
                         Some e \<Rightarrow> Inl e
                       | None \<Rightarrow> Inr payload))))"

section \<open>Requests, responses and cookies\<close>

text \<open>
  The options object handed to \<^verbatim>\<open>res.cookie\<close> and \<^verbatim>\<open>res.clearCookie\<close>; \<open>None\<close>
  is a key the source does not write.
\<close>

record cookie_options =
  httpOnly :: "bool option"
  secure :: "bool option"
  sameSite :: "string option"
  maxAge :: "int option"

text \<open>
  A \<^verbatim>\<open>Set-Cookie\<close> header: the value (\<open>None\<close> is the empty string), the three
  attributes of the options, and whether the cookie is set to expire at once.
\<close>

record set_cookie =
  cookie_name :: string
  cookie_value :: "credential option"
  HttpOnly :: bool
  Secure :: bool
  SameSite :: "string option"
  expires_at_once :: bool

definition res_cookie :: "string \<Rightarrow> credential option \<Rightarrow> cookie_options \<Rightarrow> set_cookie" where
  "res_cookie name val opts =
     \<lparr> cookie_name = name, cookie_value = val,
       HttpOnly = (httpOnly opts = Some True),
       Secure = (secure opts = Some True),
       SameSite = sameSite opts,
       expires_at_once = (case maxAge opts of None \<Rightarrow> False | Some ms \<Rightarrow> ms \<le> 0) \<rparr>"

text \<open>
  \<^verbatim>\<open>res.clearCookie(name, opts)\<close> is \<^verbatim>\<open>res.cookie(name, '', opts)\<close> with an expiry
  date in the past.
\<close>

definition res_clearCookie :: "string \<Rightarrow> cookie_options \<Rightarrow> set_cookie" where
  "res_clearCookie name opts = (res_cookie name None opts) \<lparr> expires_at_once := True \<rparr>"

text \<open>
  The answers of the handlers: a message, \<^verbatim>\<open>{success: true}\<close>, the acknowledgement of
  an insert with its \<^verbatim>\<open>insertedId\<close>, the counts \<^verbatim>\<open>matchedCount\<close> and
  \<^verbatim>\<open>modifiedCount\<close> of an update, \<^verbatim>\<open>{role}\<close>, a list of documents, the totals of the
  statistics.
\<close>

datatype body =
    Message string
  | Success
  | InsertResult jval
  | UpdateResult nat nat
  | RoleOf "jval option"
  | Docs "doc list"
  | Stats int nat nat int

record response =
  status :: nat
  content :: body
  cookie :: "set_cookie option"

definition send :: "nat \<Rightarrow> body \<Rightarrow> response" where
  "send code b = \<lparr> status = code, content = b, cookie = None \<rparr>"

text \<open>
  What a handler ends with: the response it sent, or the error it threw before sending
  one. No handler but \<^verbatim>\<open>/logout\<close> has a \<^verbatim>\<open>try\<close>, so an error of
  \<^verbatim>\<open>jwt.sign\<close> or of the store leaves the handler as thrown.
\<close>

datatype outcome = Sent response | Thrown error

text \<open>
  The routes of \<^verbatim>\<open>src/index.js\<close> that read or write the users collection, issue or
  clear the token cookie, or stand behind a role gate, each with its path parameter. The
  remaining routes (\<^verbatim>\<open>/plants\<close>, \<^verbatim>\<open>/plant/:id\<close>, \<^verbatim>\<open>/create-payment-intent\<close>,
  \<^verbatim>\<open>/order\<close>, \<^verbatim>\<open>/orders/customer/:email\<close>, \<^verbatim>\<open>/quantity-update/:id\<close> and
  \<^verbatim>\<open>/\<close>) never refer to the users collection and have no role gate.
\<close>

datatype route =
    PostJwt
  | GetLogout
  | PostAddPlant
  | PostUser
  | GetUserRole string
  | GetOrdersSeller string
  | GetAllUsers
  | PatchUserRoleUpdate string
  | PatchBecameSellerRequest string
  | GetAdminStats

text \<open>A request: its route, the cookie \<^verbatim>\<open>token\<close> and its body, a JSON object.\<close>

record request =
  path :: route
  token :: "credential option"
  reqbody :: doc

text \<open>
  What one request reads from outside: the time in seconds that the token library reads,
  the three \<^verbatim>\<open>new Date().toISOString()\<close> that \<^verbatim>\<open>POST /user\<close> evaluates, in the
  order of the source, and the \<^verbatim>\<open>ObjectId\<close> the driver generates for an insert.
\<close>

record clock =
  seconds :: int
  iso1 :: string
  iso2 :: string
  iso3 :: string
  oid :: nat

section \<open>Middleware\<close>

text \<open>
  A middleware calls \<^verbatim>\<open>next()\<close>, responds, or throws (an \<^verbatim>\<open>async\<close> function
  whose \<^verbatim>\<open>await\<close> is rejected).
\<close>

datatype 'a step = Next 'a | Halt response | Raise error

text \<open>
  \<^verbatim>\<open>verifyToken\<close>: 401 without a cookie (an empty one included) or when verification
  fails; otherwise the decoded payload becomes \<^verbatim>\<open>req.user\<close>.
\<close>

definition verifyToken :: "env \<Rightarrow> clock \<Rightarrow> request \<Rightarrow> doc step" where
  "verifyToken e clk req =
     (case token req of
        None \<Rightarrow> Halt (send 401 (Message ''unauthorized access''))
      | Some t \<Rightarrow>
          if t = Malformed [] then Halt (send 401 (Message ''unauthorized access''))
          else
            (case jwt_verify t (ACCESS_TOKEN_SECRET e) (seconds clk) of
               Inl err \<Rightarrow> Halt (send 401 (Message ''unauthorized access''))
             | Inr decoded \<Rightarrow> Next decoded))"

text \<open>
  \<^verbatim>\<open>verifyAdmin\<close> and \<^verbatim>\<open>verifySeller\<close> hand \<^verbatim>\<open>req.user.email\<close> to
  \<^verbatim>\<open>findOne\<close> as it is.
\<close>

definition verifyAdmin :: "server \<Rightarrow> db \<Rightarrow> doc \<Rightarrow> unit step" where
  "verifyAdmin srv s user =
     (case findOne srv ''email'' (doc_get user ''email'') (userCollection s) of
        Inl err \<Rightarrow> Raise err
      | Inr None \<Rightarrow> Halt (send 403 (Message ''Admin only actions''))
      | Inr (Some u) \<Rightarrow>
          if doc_get u ''role'' \<noteq> Some (JStr ''admin'')
          then Halt (send 403 (Message ''Admin only actions''))
          else Next ())"

definition verifySeller :: "server \<Rightarrow> db \<Rightarrow> doc \<Rightarrow> unit step" where
  "verifySeller srv s user =
     (case findOne srv ''email'' (doc_get user ''email'') (userCollection s) of
        Inl err \<Rightarrow> Raise err
      | Inr None \<Rightarrow> Halt (send 403 (Message ''Seller only actions''))
      | Inr (Some u) \<Rightarrow>
          if doc_get u ''role'' \<noteq> Some (JStr ''seller'')
          then Halt (send 403 (Message ''Seller only actions''))
          else Next ())"

text \<open>
  Express runs the next function of a route only when the one before it called
  \<^verbatim>\<open>next()\<close>; a middleware that responds or throws ends the request with the store
  untouched.
\<close>

definition guard :: "'a step \<Rightarrow> db \<Rightarrow> ('a \<Rightarrow> db \<times> outcome) \<Rightarrow> db \<times> outcome" where
  "guard m s k =
     (case m of Halt r \<Rightarrow> (s, Sent r) | Raise err \<Rightarrow> (s, Thrown err) | Next x \<Rightarrow> k x)"

section \<open>Handlers\<close>

definition production :: "env \<Rightarrow> bool" where
  "production e = (NODE_ENV e = Some ''production'')"

definition jwt_cookie_options :: "env \<Rightarrow> cookie_options" where
  "jwt_cookie_options e =
     \<lparr> httpOnly = Some True,
       secure = Some (production e),
       sameSite = Some (if production e then ''none'' else ''strict''),
       maxAge = None \<rparr>"

definition logout_cookie_options :: "env \<Rightarrow> cookie_options" where
  "logout_cookie_options e =
     \<lparr> httpOnly = None,
       secure = Some (production e),
       sameSite = Some (if production e then ''none'' else ''strict''),
       maxAge = Some 0 \<rparr>"

text \<open>\<^verbatim>\<open>POST /jwt\<close>: no middleware; the body is the payload.\<close>

definition post_jwt :: "env \<Rightarrow> clock \<Rightarrow> db \<Rightarrow> request \<Rightarrow> db \<times> outcome" where
  "post_jwt e clk s req =
     (case jwt_sign (reqbody req) (ACCESS_TOKEN_SECRET e) (seconds clk) of
        Inl err \<Rightarrow> (s, Thrown (Jwt err))
      | Inr t \<Rightarrow>
          (s, Sent ((send 200 Success)
                 \<lparr> cookie := Some (res_cookie ''token'' (Some t) (jwt_cookie_options e)) \<rparr>)))"

text \<open>\<^verbatim>\<open>GET /logout\<close>.\<close>

definition get_logout :: "env \<Rightarrow> db \<Rightarrow> db \<times> outcome" where
  "get_logout e s =
     (s, Sent ((send 200 Success)
            \<lparr> cookie := Some (res_clearCookie ''token'' (logout_cookie_options e)) \<rparr>))"

text \<open>\<^verbatim>\<open>POST /add-plant\<close>, behind \<^verbatim>\<open>verifyToken\<close> and \<^verbatim>\<open>verifySeller\<close>.\<close>

definition post_add_plant ::
  "server \<Rightarrow> env \<Rightarrow> clock \<Rightarrow> db \<Rightarrow> request \<Rightarrow> db \<times> outcome" where
  "post_add_plant srv e clk s req =
     guard (verifyToken e clk req) s (\<lambda>user.
     guard (verifySeller srv s user) s (\<lambda>_.
       (case insertOne srv (oid clk) (reqbody req) (plantsCollection s) of
          Inl err \<Rightarrow> (s, Thrown err)
        | Inr (plants, insertedId) \<Rightarrow>
            (s \<lparr> plantsCollection := plants \<rparr>, Sent (send 200 (InsertResult insertedId))))))"

text \<open>
  The result of \<^verbatim>\<open>updateOne\<close>: \<^verbatim>\<open>matchedCount\<close> and \<^verbatim>\<open>modifiedCount\<close>.
\<close>

definition update_result :: "(doc \<Rightarrow> bool) \<Rightarrow> (doc \<Rightarrow> doc) \<Rightarrow> doc list \<Rightarrow> body" where
  "update_result q f c =
     (case List.find q c of
        None \<Rightarrow> UpdateResult 0 0
      | Some d \<Rightarrow> UpdateResult 1 (if f d = d then 0 else 1))"

text \<open>
  \<^verbatim>\<open>POST /user\<close>: no middleware. The handler first writes three fields into the body
  it received, \<^verbatim>\<open>userData\<close>, and hands \<^verbatim>\<open>userData.email\<close> to the store as it is.
\<close>

definition userData :: "clock \<Rightarrow> doc \<Rightarrow> doc" where
  "userData clk b =
     doc_set ''last_loggedIn'' (JStr (iso2 clk))
       (doc_set ''created_at'' (JStr (iso1 clk))
          (doc_set ''role'' (JStr ''customer'') b))"

text \<open>The document under which the store keeps the \<^verbatim>\<open>userData\<close> of a first login.\<close>

definition new_record :: "clock \<Rightarrow> doc \<Rightarrow> doc" where
  "new_record clk b = with_id (oid clk) (userData clk b)"

definition post_user :: "server \<Rightarrow> clock \<Rightarrow> db \<Rightarrow> request \<Rightarrow> db \<times> outcome" where
  "post_user srv clk s req =
     (let email = doc_get (userData clk (reqbody req)) ''email''
      in case findOne srv ''email'' email (userCollection s) of
           Inl err \<Rightarrow> (s, Thrown err)
         | Inr (Some userAlreadyExist) \<Rightarrow>
             (case updateOne srv ''email'' email (doc_set ''last_loggedIn'' (JStr (iso3 clk)))
                     (userCollection s) of
                Inl err \<Rightarrow> (s, Thrown err)
              | Inr users \<Rightarrow>
                  (s \<lparr> userCollection := users \<rparr>,
                   Sent (send 200
                     (update_result (matches srv ''email'' email)
                        (doc_set ''last_loggedIn'' (JStr (iso3 clk))) (userCollection s)))))
         | Inr None \<Rightarrow>
             (case insertOne srv (oid clk) (userData clk (reqbody req)) (userCollection s) of
                Inl err \<Rightarrow> (s, Thrown err)
              | Inr (users, insertedId) \<Rightarrow>
                  (s \<lparr> userCollection := users \<rparr>, Sent (send 200 (InsertResult insertedId)))))"

text \<open>\<^verbatim>\<open>GET /user/role/:email\<close>: no middleware.\<close>

definition get_user_role :: "server \<Rightarrow> db \<Rightarrow> string \<Rightarrow> db \<times> outcome" where
  "get_user_role srv s email =
     (case findOne srv ''email'' (Some (JStr email)) (userCollection s) of
        Inl err \<Rightarrow> (s, Thrown err)
      | Inr None \<Rightarrow> (s, Sent (send 404 (Message ''User not Found'')))
      | Inr (Some result) \<Rightarrow> (s, Sent (send 200 (RoleOf (doc_get result ''role'')))))"

text \<open>\<^verbatim>\<open>GET /orders/seller/:email\<close>, behind \<^verbatim>\<open>verifyToken\<close> and \<^verbatim>\<open>verifySeller\<close>.\<close>

definition get_orders_seller ::
  "server \<Rightarrow> env \<Rightarrow> clock \<Rightarrow> db \<Rightarrow> request \<Rightarrow> string \<Rightarrow> db \<times> outcome" where
  "get_orders_seller srv e clk s req email =
     guard (verifyToken e clk req) s (\<lambda>user.
     guard (verifySeller srv s user) s (\<lambda>_.
       (s, Sent (send 200 (Docs (filter (seller_email email) (ordersCollection s)))))))"

text \<open>
  \<^verbatim>\<open>GET /all-users\<close>, behind \<^verbatim>\<open>verifyToken\<close> and \<^verbatim>\<open>verifyAdmin\<close>, with the
  filter \<^verbatim>\<open>{email: {$ne: req.user.email}}\<close>.
\<close>

definition get_all_users ::
  "server \<Rightarrow> env \<Rightarrow> clock \<Rightarrow> db \<Rightarrow> request \<Rightarrow> db \<times> outcome" where
  "get_all_users srv e clk s req =
     guard (verifyToken e clk req) s (\<lambda>user.
     guard (verifyAdmin srv s user) s (\<lambda>_.
       (case find_all srv ''email'' (Some (JObj [(''$ne'', bson (doc_get user ''email''))]))
               (userCollection s) of
          Inl err \<Rightarrow> (s, Thrown err)
        | Inr result \<Rightarrow> (s, Sent (send 200 (Docs result))))))"

text \<open>
  \<^verbatim>\<open>PATCH /user/role/update/:email\<close>, behind \<^verbatim>\<open>verifyToken\<close> and
  \<^verbatim>\<open>verifyAdmin\<close>. The role is whatever the body holds under \<^verbatim>\<open>role\<close>; a scalar is
  always stored.
\<close>

definition approve :: "jval option \<Rightarrow> doc \<Rightarrow> doc" where
  "approve role d = doc_set ''status'' (JStr ''verified'') (doc_set ''role'' (bson role) d)"

definition patch_user_role_update ::
  "server \<Rightarrow> env \<Rightarrow> clock \<Rightarrow> db \<Rightarrow> request \<Rightarrow> string \<Rightarrow> db \<times> outcome" where
  "patch_user_role_update srv e clk s req email =
     guard (verifyToken e clk req) s (\<lambda>user.
     guard (verifyAdmin srv s user) s (\<lambda>_.
       (let role = doc_get (reqbody req) ''role'';
            updateDoc = approve role
        in if \<not> scalar (bson role) \<and>
              bad_update srv (bson role)
                (List.find (matches srv ''email'' (Some (JStr email))) (userCollection s))
           then (s, Thrown BadUpdate)
           else
             (case updateOne srv ''email'' (Some (JStr email)) updateDoc (userCollection s) of
                Inl err \<Rightarrow> (s, Thrown err)
              | Inr users \<Rightarrow>
                  (s \<lparr> userCollection := users \<rparr>,
                   Sent (send 200
                     (update_result (matches srv ''email'' (Some (JStr email))) updateDoc
                        (userCollection s))))))))"

text \<open>\<^verbatim>\<open>PATCH /became-seller-request/:email\<close>, behind \<^verbatim>\<open>verifyToken\<close> alone.\<close>

definition patch_became_seller_request ::
  "server \<Rightarrow> env \<Rightarrow> clock \<Rightarrow> db \<Rightarrow> request \<Rightarrow> string \<Rightarrow> db \<times> outcome" where
  "patch_became_seller_request srv e clk s req email =
     guard (verifyToken e clk req) s (\<lambda>user.
       (let updateDoc = doc_set ''status'' (JStr ''requested'')
        in case updateOne srv ''email'' (Some (JStr email)) updateDoc (userCollection s) of
             Inl err \<Rightarrow> (s, Thrown err)
           | Inr users \<Rightarrow>
               (s \<lparr> userCollection := users \<rparr>,
                Sent (send 200
                  (update_result (matches srv ''email'' (Some (JStr email))) updateDoc
                     (userCollection s))))))"

text \<open>
  \<^verbatim>\<open>GET /admin-stats\<close>, behind \<^verbatim>\<open>verifyToken\<close> and \<^verbatim>\<open>verifyAdmin\<close>. The
  response carries the four totals; the rows of \<^verbatim>\<open>barChartData\<close>, which the store
  groups by the day of an order's \<^verbatim>\<open>_id\<close> and returns in no specified order, are not
  modelled. \<^verbatim>\<open>$sum\<close> adds the numeric prices and skips the others.
\<close>

definition price :: "doc \<Rightarrow> int" where
  "price d = (case doc_get d ''price'' of Some (JNum n) \<Rightarrow> n | _ \<Rightarrow> 0)"

definition get_admin_stats ::
  "server \<Rightarrow> env \<Rightarrow> clock \<Rightarrow> db \<Rightarrow> request \<Rightarrow> db \<times> outcome" where
  "get_admin_stats srv e clk s req =
     guard (verifyToken e clk req) s (\<lambda>user.
     guard (verifyAdmin srv s user) s (\<lambda>_.
       (case find_all srv ''role'' (Some (JStr ''admin'')) (userCollection s) of
          Inl err \<Rightarrow> (s, Thrown err)
        | Inr admins \<Rightarrow>
            (let totalAdmin = length admins;
                 totalUser = int (length (userCollection s)) - int totalAdmin;
                 totalPlant = length (plantsCollection s);
                 totalOrder = length (ordersCollection s);
                 totalRevenew = sum_list (map price (ordersCollection s))
             in if bad_pipeline srv (ordersCollection s) then (s, Thrown BadPipeline)
                else (s, Sent (send 200 (Stats totalUser totalPlant totalOrder totalRevenew)))))))"

section \<open>The application\<close>

definition app :: "server \<Rightarrow> env \<Rightarrow> clock \<Rightarrow> db \<Rightarrow> request \<Rightarrow> db \<times> outcome" where
  "app srv e clk s req =
     (case path req of
        PostJwt \<Rightarrow> post_jwt e clk s req
      | GetLogout \<Rightarrow> get_logout e s
      | PostAddPlant \<Rightarrow> post_add_plant srv e clk s req
      | PostUser \<Rightarrow> post_user srv clk s req
      | GetUserRole email \<Rightarrow> get_user_role srv s email
      | GetOrdersSeller email \<Rightarrow> get_orders_seller srv e clk s req email
      | GetAllUsers \<Rightarrow> get_all_users srv e clk s req
      | PatchUserRoleUpdate email \<Rightarrow> patch_user_role_update srv e clk s req email
      | PatchBecameSellerRequest email \<Rightarrow> patch_became_seller_request srv e clk s req email
      | GetAdminStats \<Rightarrow> get_admin_stats srv e clk s req)"



text \<open>The roles of the stored records, in the order of the collection.\<close>

definition roles :: "db \<Rightarrow> jval option list" where
  "roles s = map (\<lambda>d. doc_get d ''role'') (userCollection s)"

text \<open>
  A record is the record of the email \<open>a\<close> when its \<^verbatim>\<open>email\<close> field is the string
  \<open>a\<close>, or a list with the string \<open>a\<close> in it.
\<close>

definition has_email :: "string \<Rightarrow> doc \<Rightarrow> bool" where
  "has_email a d =
     (case doc_get d ''email'' of
        Some (JStr b) \<Rightarrow> b = a
      | Some (JArr xs) \<Rightarrow> JStr a \<in> set xs
      | _ \<Rightarrow> False)"

section \<open>Sample data\<close>

text \<open>
  Concrete environments, clocks, credentials and stores on which the theorems are run. The
  sample store refuses every filter value and every \<^verbatim>\<open>$set\<close> value beyond those
  spelled out above, and accepts every document and pipeline.
\<close>

definition example_server :: server where
  "example_server =
     \<lparr> bad_filter = (\<lambda>q. True), selects = (\<lambda>q x. False), bad_document = (\<lambda>d. False),
       bad_update = (\<lambda>v d. True), bad_pipeline = (\<lambda>c. False) \<rparr>"

definition example_env :: env where
  "example_env = \<lparr> NODE_ENV = None, ACCESS_TOKEN_SECRET = Some ''secret'' \<rparr>"

definition example_clock :: clock where
  "example_clock =
     \<lparr> seconds = 1700000000, iso1 = ''2023-11-14T22:13:20.000Z'',
       iso2 = ''2023-11-14T22:13:20.001Z'', iso3 = ''2023-11-14T22:13:20.002Z'', oid = 7 \<rparr>"

definition credential_for :: "jval \<Rightarrow> credential" where
  "credential_for a =
     Signed [(''email'', a), (''iat'', JNum 1700000000), (''exp'', JNum 1731536000)] ''secret''"

definition user_record :: "nat \<Rightarrow> string \<Rightarrow> string \<Rightarrow> doc" where
  "user_record n a r = [(''_id'', JOid n), (''email'', JStr a), (''role'', JStr r)]"

definition store_of :: "doc list \<Rightarrow> db" where
  "store_of us = \<lparr> userCollection = us, plantsCollection = [], ordersCollection = [] \<rparr>"

definition victim_request :: request where
  "victim_request =
     \<lparr> path = PatchBecameSellerRequest ''victim@x.com'',
       token = Some (credential_for (JStr ''attacker@x.com'')), reqbody = [] \<rparr>"

definition login_request :: "doc \<Rightarrow> request" where
  "login_request b = \<lparr> path = PostUser, token = None, reqbody = b \<rparr>"

definition seller_record :: doc where
  "seller_record =
     [(''_id'', JOid 2), (''email'', JStr ''s@x.com''), (''role'', JStr ''seller''),
      (''status'', JStr ''verified''), (''created_at'', JStr ''2020-01-01T00:00:00.000Z''),
      (''last_loggedIn'', JStr ''2020-01-01T00:00:00.000Z'')]"

definition approve_request :: request where
  "approve_request =
     \<lparr> path = PatchUserRoleUpdate ''c@x.com'',
       token = Some (credential_for (JStr ''root@x.com'')),
       reqbody = [(''role'', JStr ''seller'')] \<rparr>"


lemmas example_defs = example_server_def example_env_def example_clock_def credential_for_def
  user_record_def store_of_def

lemmas model_defs = app_def guard_def verifyToken_def verifyAdmin_def verifySeller_def
  jwt_verify_def jwt_sign_def timestamp_def not_before_def expired_def claim_ok_def expiresIn_def
  findOne_def find_all_def updateOne_def insertOne_def with_id_def accepted_def selected_def
  ne_arg_def scalar_def equals_def matches_def bson_def doc_get_def doc_set_def send_def
  update_result_def

section \<open>Documents and collections\<close>

lemma doc_get_doc_set:
  "doc_get (doc_set k v d) k' = (if k' = k then Some v else doc_get d k')"
  by (simp add: doc_get_def doc_set_def update_conv')

lemma matches_doc_set_other:
  "k' \<noteq> k \<Longrightarrow> matches srv k v (doc_set k' w d) = matches srv k v d"
  by (simp add: matches_def doc_get_doc_set)

lemma matches_string:
  "matches srv k (Some (JStr a)) d = equals (JStr a) (doc_get d k)"
  by (simp add: matches_def selected_def bson_def scalar_def)

lemma has_email_equals: "has_email a d = equals (JStr a) (doc_get d ''email'')"
  by (auto simp: has_email_def equals_def split: option.splits jval.splits)

lemma equals_own: "equals (bson x) x"
  by (cases x) (simp_all add: equals_def bson_def)

lemma accepted_string: "accepted srv (bson (Some (JStr a)))"
  by (simp add: accepted_def bson_def scalar_def)

lemma findOne_string:
  "findOne srv k (Some (JStr a)) c = Inr (List.find (matches srv k (Some (JStr a))) c)"
  by (simp add: findOne_def accepted_string)

lemma updateOne_string:
  "updateOne srv k (Some (JStr a)) f c = Inr (update_first (matches srv k (Some (JStr a))) f c)"
  by (simp add: updateOne_def accepted_string)

lemma findOne_no_record:
  assumes "\<forall>d\<in>set c. \<not> has_email a d"
  shows "findOne srv ''email'' (Some (JStr a)) c = Inr None"
  using assms by (simp add: findOne_string find_None_iff matches_string has_email_equals)

lemma length_update_first: "length (update_first q f c) = length c"
  by (induction c) auto

lemma update_first_preserves_field:
  assumes "\<And>d. doc_get (f d) k = doc_get d k"
  shows "map (\<lambda>d. doc_get d k) (update_first q f c) = map (\<lambda>d. doc_get d k) c"
  using assms by (induction c) auto

lemma find_update_first:
  assumes "\<And>d. q d \<Longrightarrow> q (f d)"
  shows "List.find q (update_first q f c) = map_option f (List.find q c)"
  using assms by (induction c) auto

lemma update_first_split:
  "List.find q c = Some d \<Longrightarrow>
   \<exists>pre post. c = pre @ d # post \<and> (\<forall>x\<in>set pre. \<not> q x) \<and> q d \<and>
     update_first q f c = pre @ f d # post"
proof (induction c)
  case Nil
  then show ?case by simp
next
  case (Cons x xs)
  show ?case
  proof (cases "q x")
    case True
    with Cons.prems have "x = d" by simp
    with True have "x # xs = [] @ d # xs \<and> (\<forall>y\<in>set []. \<not> q y) \<and> q d \<and>
      update_first q f (x # xs) = [] @ f d # xs" by simp
    then show ?thesis by blast
  next
    case False
    with Cons.prems have "List.find q xs = Some d" by simp
    from Cons.IH [OF this] obtain pre post where
      "xs = pre @ d # post" "\<forall>y\<in>set pre. \<not> q y" "q d" "update_first q f xs = pre @ f d # post"
      by blast
    with False have "x # xs = (x # pre) @ d # post \<and> (\<forall>y\<in>set (x # pre). \<not> q y) \<and> q d \<and>
      update_first q f (x # xs) = (x # pre) @ f d # post" by simp
    then show ?thesis by blast
  qed
qed

lemma userData_fields:
  "doc_get (userData clk b) k =
     (if k = ''last_loggedIn'' then Some (JStr (iso2 clk))
      else if k = ''created_at'' then Some (JStr (iso1 clk))
      else if k = ''role'' then Some (JStr ''customer'')
      else doc_get b k)"
  by (simp add: userData_def doc_get_doc_set)

lemma with_id_fields:
  "k \<noteq> ''_id'' \<Longrightarrow> doc_get (with_id n d) k = doc_get d k"
  by (simp add: with_id_def doc_get_doc_set)

lemma new_record_fields:
  "doc_get (new_record clk b) k =
     (if k = ''_id'' then
        (if doc_get b ''_id'' = None \<or> doc_get b ''_id'' = Some JNull
         then Some (JOid (oid clk)) else doc_get b ''_id'')
      else if k = ''last_loggedIn'' then Some (JStr (iso2 clk))
      else if k = ''created_at'' then Some (JStr (iso1 clk))
      else if k = ''role'' then Some (JStr ''customer'')
      else doc_get b k)"
  by (simp add: new_record_def with_id_def doc_get_doc_set userData_fields)

lemma insertOne_fresh:
  assumes "\<not> bad_document srv (with_id n d)"
    and "\<forall>x\<in>set c. doc_get x ''_id'' \<noteq> doc_get (with_id n d) ''_id''"
  shows "insertOne srv n d c = Inr (c @ [with_id n d], bson (doc_get (with_id n d) ''_id''))"
  using assms by (simp add: insertOne_def list_ex_iff)

lemma insertOne_appends:
  "insertOne srv n d c = Inr (c', i) \<Longrightarrow> c' = c @ [with_id n d]"
  by (simp add: insertOne_def split: if_splits)

section \<open>The role gate\<close>









section \<open>The seller request\<close>

text \<open>
  Claim C1, as the code has it. \<^verbatim>\<open>PATCH /became-seller-request/:email\<close> runs behind
  \<open>verifyToken\<close> alone and never compares the email of the credential with the path
  parameter: for every verified credential the answer is 200 with the update result, and
  the first record whose email is the path parameter gets \<^verbatim>\<open>status = "requested"\<close>.
  Neither the new store nor the response depends on the identity in the credential.
\<close>

theorem became_seller_request_any_caller:
  assumes tok: "verifyToken e clk req = Next user"
    and route: "path req = PatchBecameSellerRequest email"
  shows "app srv e clk s req =
           (s \<lparr> userCollection :=
                  update_first (matches srv ''email'' (Some (JStr email)))
                    (doc_set ''status'' (JStr ''requested'')) (userCollection s) \<rparr>,
            Sent (send 200
              (update_result (matches srv ''email'' (Some (JStr email)))
                 (doc_set ''status'' (JStr ''requested'')) (userCollection s)))) \<and>
         findOne srv ''email'' (Some (JStr email)) (userCollection (fst (app srv e clk s req)))
           = map_sum id (map_option (doc_set ''status'' (JStr ''requested'')))
               (findOne srv ''email'' (Some (JStr email)) (userCollection s))"
proof -
  have result: "app srv e clk s req =
           (s \<lparr> userCollection :=
                  update_first (matches srv ''email'' (Some (JStr email)))
                    (doc_set ''status'' (JStr ''requested'')) (userCollection s) \<rparr>,
            Sent (send 200
              (update_result (matches srv ''email'' (Some (JStr email)))
                 (doc_set ''status'' (JStr ''requested'')) (userCollection s))))"
    using tok route
    by (simp add: app_def patch_became_seller_request_def guard_def Let_def updateOne_string)
  have "findOne srv ''email'' (Some (JStr email)) (userCollection (fst (app srv e clk s req)))
           = map_sum id (map_option (doc_set ''status'' (JStr ''requested'')))
               (findOne srv ''email'' (Some (JStr email)) (userCollection s))"
    unfolding result by (simp add: findOne_string find_update_first matches_doc_set_other)
  with result show ?thesis by simp
qed

theorem became_seller_request_any_caller_witness:
  "verifyToken example_env example_clock victim_request
     = Next [(''email'', JStr ''attacker@x.com''), (''iat'', JNum 1700000000),
             (''exp'', JNum 1731536000)] \<and>
   path victim_request = PatchBecameSellerRequest ''victim@x.com'' \<and>
   app example_server example_env example_clock
     (store_of [user_record 1 ''victim@x.com'' ''customer'']) victim_request
     = (store_of [[(''_id'', JOid 1), (''email'', JStr ''victim@x.com''),
                   (''role'', JStr ''customer''), (''status'', JStr ''requested'')]],
        Sent (send 200 (UpdateResult 1 1)))"
  using became_seller_request_any_caller [of example_env example_clock victim_request
      "[(''email'', JStr ''attacker@x.com''), (''iat'', JNum 1700000000),
        (''exp'', JNum 1731536000)]" "''victim@x.com''" example_server
      "store_of [user_record 1 ''victim@x.com'' ''customer'']"]
  by (simp add: victim_request_def example_defs model_defs)

text \<open>
  Claim C1 as stated fails: a credential for \<^verbatim>\<open>attacker@x.com\<close> sets the status of the
  record of \<^verbatim>\<open>victim@x.com\<close>, and the answer is 200, not 403.
\<close>

theorem cross_account_request_counterexample:
  "doc_get [(''email'', JStr ''attacker@x.com''), (''iat'', JNum 1700000000),
            (''exp'', JNum 1731536000)] ''email'' \<noteq> Some (JStr ''victim@x.com'') \<and>
   verifyToken example_env example_clock victim_request
     = Next [(''email'', JStr ''attacker@x.com''), (''iat'', JNum 1700000000),
             (''exp'', JNum 1731536000)] \<and>
   app example_server example_env example_clock
     \<lparr> userCollection =
         [[(''_id'', JOid 1), (''email'', JStr ''victim@x.com''), (''role'', JStr ''customer'')]],
       plantsCollection = [], ordersCollection = [] \<rparr>
     victim_request
     = (\<lparr> userCollection =
           [[(''_id'', JOid 1), (''email'', JStr ''victim@x.com''), (''role'', JStr ''customer''),
             (''status'', JStr ''requested'')]],
          plantsCollection = [], ordersCollection = [] \<rparr>,
        Sent \<lparr> status = 200, content = UpdateResult 1 1, cookie = None \<rparr>)"
  by (simp add: victim_request_def patch_became_seller_request_def example_defs model_defs)

section \<open>Login: \<^verbatim>\<open>POST /user\<close>\<close>

text \<open>
  Claim C4, as the code has it. Let the email of the body be a string that no record of
  the users collection has, and let the store accept the document: it does not refuse it,
  and its \<^verbatim>\<open>_id\<close> (the one the body brings, or else the one the driver generates) is
  not yet in the collection. Then \<^verbatim>\<open>POST /user\<close> appends one record: the body with
  \<^verbatim>\<open>role\<close> set to \<^verbatim>\<open>customer\<close>, \<^verbatim>\<open>created_at\<close> set to the first reading of the
  clock and \<^verbatim>\<open>last_loggedIn\<close> to the second. Every other field, \<^verbatim>\<open>status\<close> among
  them, is what the body carried: the handler writes no \<^verbatim>\<open>status\<close>.
\<close>

theorem post_user_creates:
  assumes route: "path req = PostUser"
    and email: "doc_get (reqbody req) ''email'' = Some (JStr a)"
    and norec: "\<forall>d\<in>set (userCollection s). \<not> has_email a d"
    and storable: "\<not> bad_document srv (new_record clk (reqbody req))"
    and fresh: "\<forall>d\<in>set (userCollection s).
                  doc_get d ''_id'' \<noteq> doc_get (new_record clk (reqbody req)) ''_id''"
  shows "app srv e clk s req =
           (s \<lparr> userCollection := userCollection s @ [new_record clk (reqbody req)] \<rparr>,
            Sent (send 200
              (InsertResult (bson (doc_get (new_record clk (reqbody req)) ''_id''))))) \<and>
         doc_get (new_record clk (reqbody req)) ''role'' = Some (JStr ''customer'') \<and>
         doc_get (new_record clk (reqbody req)) ''created_at'' = Some (JStr (iso1 clk)) \<and>
         doc_get (new_record clk (reqbody req)) ''last_loggedIn'' = Some (JStr (iso2 clk)) \<and>
         doc_get (new_record clk (reqbody req)) ''status'' = doc_get (reqbody req) ''status'' \<and>
         (\<forall>k. k \<noteq> ''role'' \<and> k \<noteq> ''created_at'' \<and> k \<noteq> ''last_loggedIn'' \<and> k \<noteq> ''_id'' \<longrightarrow>
            doc_get (new_record clk (reqbody req)) k = doc_get (reqbody req) k)"
proof -
  have mail: "doc_get (userData clk (reqbody req)) ''email'' = Some (JStr a)"
    using email by (simp add: userData_fields)
  from norec
  have "findOne srv ''email'' (Some (JStr a)) (userCollection s) = Inr None"
    by (rule findOne_no_record)
  moreover from storable fresh
  have "insertOne srv (oid clk) (userData clk (reqbody req)) (userCollection s)
          = Inr (userCollection s @ [new_record clk (reqbody req)],
                 bson (doc_get (new_record clk (reqbody req)) ''_id''))"
    unfolding new_record_def by (rule insertOne_fresh)
  ultimately have "app srv e clk s req =
           (s \<lparr> userCollection := userCollection s @ [new_record clk (reqbody req)] \<rparr>,
            Sent (send 200
              (InsertResult (bson (doc_get (new_record clk (reqbody req)) ''_id'')))))"
    using route mail by (simp add: app_def post_user_def Let_def)
  then show ?thesis by (simp add: new_record_fields)
qed

theorem post_user_creates_witness:
  "path (login_request [(''email'', JStr ''a@x.com''), (''name'', JStr ''Ann'')]) = PostUser \<and>
   \<not> has_email ''a@x.com'' (user_record 1 ''root@x.com'' ''admin'') \<and>
   \<not> bad_document example_server
       (new_record example_clock [(''email'', JStr ''a@x.com''), (''name'', JStr ''Ann'')]) \<and>
   app example_server example_env example_clock
     (store_of [user_record 1 ''root@x.com'' ''admin''])
     (login_request [(''email'', JStr ''a@x.com''), (''name'', JStr ''Ann'')])
     = (store_of [user_record 1 ''root@x.com'' ''admin'',
          [(''email'', JStr ''a@x.com''), (''name'', JStr ''Ann''),
           (''role'', JStr ''customer''), (''created_at'', JStr ''2023-11-14T22:13:20.000Z''),
           (''last_loggedIn'', JStr ''2023-11-14T22:13:20.001Z''), (''_id'', JOid 7)]],
        Sent (send 200 (InsertResult (JOid 7)))) \<and>
   doc_get (new_record example_clock [(''email'', JStr ''a@x.com''), (''name'', JStr ''Ann'')])
     ''status'' = None"
  using post_user_creates [of
      "login_request [(''email'', JStr ''a@x.com''), (''name'', JStr ''Ann'')]" "''a@x.com''"
      "store_of [user_record 1 ''root@x.com'' ''admin'']" example_server example_clock
      example_env]
  by (simp add: login_request_def new_record_def with_id_def userData_def has_email_def
      example_defs bson_def doc_get_def doc_set_def)

text \<open>
  Claim C4 as stated fails: a first login whose body carries \<^verbatim>\<open>status: "verified"\<close>
  creates a record with that status.
\<close>

theorem post_user_status_counterexample:
  "findOne example_server ''email'' (Some (JStr ''a@x.com'')) (userCollection (store_of []))
     = Inr None \<and>
   app example_server example_env example_clock (store_of [])
     (login_request [(''email'', JStr ''a@x.com''), (''status'', JStr ''verified'')])
     = (\<lparr> userCollection =
            [[(''email'', JStr ''a@x.com''), (''status'', JStr ''verified''),
              (''role'', JStr ''customer''), (''created_at'', JStr ''2023-11-14T22:13:20.000Z''),
              (''last_loggedIn'', JStr ''2023-11-14T22:13:20.001Z''), (''_id'', JOid 7)]],
          plantsCollection = [], ordersCollection = [] \<rparr>,
        Sent \<lparr> status = 200, content = InsertResult (JOid 7), cookie = None \<rparr>) \<and>
   doc_get [(''email'', JStr ''a@x.com''), (''status'', JStr ''verified''),
            (''role'', JStr ''customer''), (''created_at'', JStr ''2023-11-14T22:13:20.000Z''),
            (''last_loggedIn'', JStr ''2023-11-14T22:13:20.001Z''), (''_id'', JOid 7)] ''status''
     = Some (JStr ''verified'')"
  by (simp add: login_request_def post_user_def userData_def example_defs model_defs)

text \<open>
  On an existing record the call rewrites that record alone, setting its
  \<^verbatim>\<open>last_loggedIn\<close>.
\<close>

lemma post_user_on_existing:
  assumes route: "path req = PostUser"
    and found: "findOne srv ''email'' (doc_get (reqbody req) ''email'') (userCollection s)
                  = Inr (Some d)"
  shows "\<exists>pre post.
           userCollection s = pre @ d # post \<and>
           app srv e clk s req =
             (s \<lparr> userCollection :=
                   pre @ doc_set ''last_loggedIn'' (JStr (iso3 clk)) d # post \<rparr>,
              Sent (send 200 (UpdateResult 1
                (if doc_set ''last_loggedIn'' (JStr (iso3 clk)) d = d then 0 else 1))))"
proof -
  let ?v = "doc_get (reqbody req) ''email''"
  let ?q = "matches srv ''email'' ?v"
  let ?f = "doc_set ''last_loggedIn'' (JStr (iso3 clk))"
  have v: "doc_get (userData clk (reqbody req)) ''email'' = ?v"
    by (simp add: userData_fields)
  from found have acc: "accepted srv (bson ?v)" and find: "List.find ?q (userCollection s) = Some d"
    by (auto simp: findOne_def split: if_splits)
  from update_first_split [OF find, of ?f] obtain pre post where
    split: "userCollection s = pre @ d # post"
      "update_first ?q ?f (userCollection s) = pre @ ?f d # post"
    by blast
  have "app srv e clk s req =
      (s \<lparr> userCollection := update_first ?q ?f (userCollection s) \<rparr>,
       Sent (send 200 (UpdateResult 1 (if ?f d = d then 0 else 1))))"
    using route found acc find
    by (simp add: app_def post_user_def v Let_def updateOne_def update_result_def)
  with split show ?thesis by auto
qed

text \<open>
  Claim C5. When the lookup by the email of the body finds a record \<open>d\<close>, the users
  collection after \<^verbatim>\<open>POST /user\<close> is the old one with \<open>d\<close> replaced, where it
  stands, by a record \<open>d'\<close> whose \<^verbatim>\<open>last_loggedIn\<close> is the third reading of the clock
  and whose every other field (role, status and created_at among them) reads as in \<open>d\<close>;
  every other record and the other collections are the same.
\<close>

theorem post_user_existing_frame:
  assumes route: "path req = PostUser"
    and found: "findOne srv ''email'' (doc_get (reqbody req) ''email'') (userCollection s)
                  = Inr (Some d)"
  shows "\<exists>pre d' post.
           userCollection s = pre @ d # post \<and>
           fst (app srv e clk s req) = s \<lparr> userCollection := pre @ d' # post \<rparr> \<and>
           doc_get d' ''last_loggedIn'' = Some (JStr (iso3 clk)) \<and>
           doc_get d' ''role'' = doc_get d ''role'' \<and>
           doc_get d' ''status'' = doc_get d ''status'' \<and>
           doc_get d' ''created_at'' = doc_get d ''created_at'' \<and>
           (\<forall>k. k \<noteq> ''last_loggedIn'' \<longrightarrow> doc_get d' k = doc_get d k)"
proof -
  from post_user_on_existing [OF route found, of e clk] obtain pre post where
    "userCollection s = pre @ d # post"
    "fst (app srv e clk s req) =
       s \<lparr> userCollection := pre @ doc_set ''last_loggedIn'' (JStr (iso3 clk)) d # post \<rparr>"
    by auto
  then show ?thesis
    by (intro exI [of _ pre] exI [of _ "doc_set ''last_loggedIn'' (JStr (iso3 clk)) d"]
        exI [of _ post]) (simp add: doc_get_doc_set)
qed

theorem post_user_existing_frame_witness:
  "path (login_request [(''email'', JStr ''s@x.com''), (''role'', JStr ''admin'')]) = PostUser \<and>
   findOne example_server ''email''
     (doc_get (reqbody (login_request [(''email'', JStr ''s@x.com''), (''role'', JStr ''admin'')]))
        ''email'')
     (userCollection (store_of [user_record 1 ''root@x.com'' ''admin'', seller_record]))
     = Inr (Some seller_record) \<and>
   fst (app example_server example_env example_clock
          (store_of [user_record 1 ''root@x.com'' ''admin'', seller_record])
          (login_request [(''email'', JStr ''s@x.com''), (''role'', JStr ''admin'')]))
     = store_of [user_record 1 ''root@x.com'' ''admin'',
         [(''_id'', JOid 2), (''email'', JStr ''s@x.com''), (''role'', JStr ''seller''),
          (''status'', JStr ''verified''), (''created_at'', JStr ''2020-01-01T00:00:00.000Z''),
          (''last_loggedIn'', JStr ''2023-11-14T22:13:20.002Z'')]]"
proof -
  have found: "findOne example_server ''email''
     (doc_get (reqbody (login_request [(''email'', JStr ''s@x.com''), (''role'', JStr ''admin'')]))
        ''email'')
     (userCollection (store_of [user_record 1 ''root@x.com'' ''admin'', seller_record]))
     = Inr (Some seller_record)"
    by (simp add: login_request_def seller_record_def example_defs findOne_def accepted_def
        selected_def scalar_def equals_def matches_def bson_def doc_get_def)
  have step: "fst (app example_server example_env example_clock
          (store_of [user_record 1 ''root@x.com'' ''admin'', seller_record])
          (login_request [(''email'', JStr ''s@x.com''), (''role'', JStr ''admin'')]))
     = store_of [user_record 1 ''root@x.com'' ''admin'',
         [(''_id'', JOid 2), (''email'', JStr ''s@x.com''), (''role'', JStr ''seller''),
          (''status'', JStr ''verified''), (''created_at'', JStr ''2020-01-01T00:00:00.000Z''),
          (''last_loggedIn'', JStr ''2023-11-14T22:13:20.002Z'')]]"
    by (simp add: login_request_def seller_record_def post_user_def userData_def example_defs
        model_defs)
  from post_user_existing_frame [OF _ found, of example_env example_clock]
  have "\<exists>pre d' post.
      userCollection (store_of [user_record 1 ''root@x.com'' ''admin'', seller_record])
        = pre @ seller_record # post \<and>
      fst (app example_server example_env example_clock
          (store_of [user_record 1 ''root@x.com'' ''admin'', seller_record])
          (login_request [(''email'', JStr ''s@x.com''), (''role'', JStr ''admin'')]))
        = (store_of [user_record 1 ''root@x.com'' ''admin'', seller_record])
            \<lparr> userCollection := pre @ d' # post \<rparr> \<and>
      doc_get d' ''role'' = doc_get seller_record ''role''"
    by (auto simp: login_request_def)
  with found step show ?thesis by (simp add: login_request_def)
qed

text \<open>
  After a \<^verbatim>\<open>POST /user\<close> that was answered, the lookup by a scalar email of the body
  finds a record, so a second call with the same body is a call on an existing record: it
  changes nothing but the \<^verbatim>\<open>last_loggedIn\<close> of one record of the store the first call
  left.
\<close>

lemma post_user_leaves_record:
  assumes route: "path req = PostUser"
    and plain: "scalar (bson (doc_get (reqbody req) ''email''))"
    and sent: "app srv e clk s req = (s', Sent r)"
  shows "\<exists>d. findOne srv ''email'' (doc_get (reqbody req) ''email'') (userCollection s')
               = Inr (Some d)"
proof -
  let ?v = "doc_get (reqbody req) ''email''"
  let ?q = "matches srv ''email'' ?v"
  have v: "doc_get (userData clk (reqbody req)) ''email'' = ?v"
    by (simp add: userData_fields)
  from plain have acc: "accepted srv (bson ?v)" by (simp add: accepted_def)
  have q: "?q d = equals (bson ?v) (doc_get d ''email'')" for d
    using plain by (simp add: matches_def selected_def)
  have "List.find ?q (userCollection s') \<noteq> None"
  proof (cases "List.find ?q (userCollection s)")
    case None
    with sent route acc obtain i where
      "insertOne srv (oid clk) (userData clk (reqbody req)) (userCollection s)
         = Inr (userCollection s', i)"
      by (auto simp: app_def post_user_def v Let_def findOne_def split: sum.splits)
    then have "userCollection s' = userCollection s @ [new_record clk (reqbody req)]"
      by (simp add: insertOne_appends new_record_def)
    moreover have "?q (new_record clk (reqbody req))"
      by (simp add: q new_record_fields equals_own)
    ultimately show ?thesis by (auto simp: find_None_iff)
  next
    case (Some d)
    with sent route acc
    have "userCollection s' =
        update_first ?q (doc_set ''last_loggedIn'' (JStr (iso3 clk))) (userCollection s)"
      by (auto simp: app_def post_user_def v Let_def findOne_def updateOne_def)
    with Some show ?thesis by (simp add: find_update_first matches_doc_set_other)
  qed
  with acc show ?thesis by (auto simp: findOne_def)
qed

lemma post_user_twice:
  assumes route: "path req = PostUser"
    and plain: "scalar (bson (doc_get (reqbody req) ''email''))"
    and first: "app srv e clk s req = (s1, Sent r)"
  shows "\<exists>pre d post.
           userCollection s1 = pre @ d # post \<and>
           fst (app srv e clk' s1 req) =
             s1 \<lparr> userCollection :=
                      pre @ doc_set ''last_loggedIn'' (JStr (iso3 clk')) d # post \<rparr>"
proof -
  from post_user_leaves_record [OF route plain first]
  obtain d where "findOne srv ''email'' (doc_get (reqbody req) ''email'') (userCollection s1)
                    = Inr (Some d)"
    by blast
  from post_user_on_existing [OF route this, of e clk'] obtain pre post where
    "userCollection s1 = pre @ d # post"
    "fst (app srv e clk' s1 req) =
       s1 \<lparr> userCollection :=
                pre @ doc_set ''last_loggedIn'' (JStr (iso3 clk')) d # post \<rparr>"
    by auto
  then show ?thesis by blast
qed

text \<open>
  Claim C10. \<^verbatim>\<open>POST /user\<close> writes \<^verbatim>\<open>role = "customer"\<close> into the body before it
  looks the record up, whatever the body said, and a record the call adds to the users
  collection is that body (with its \<^verbatim>\<open>_id\<close>): it has the role \<^verbatim>\<open>customer\<close>.
\<close>

theorem created_record_is_customer:
  assumes route: "path req = PostUser"
  shows "doc_get (userData clk (reqbody req)) ''role'' = Some (JStr ''customer'') \<and>
         (\<forall>d. userCollection (fst (app srv e clk s req)) = userCollection s @ [d] \<longrightarrow>
              d = new_record clk (reqbody req) \<and> doc_get d ''role'' = Some (JStr ''customer''))"
proof -
  let ?v = "doc_get (userData clk (reqbody req)) ''email''"
  have role: "doc_get (new_record clk (reqbody req)) ''role'' = Some (JStr ''customer'')"
    "doc_get (userData clk (reqbody req)) ''role'' = Some (JStr ''customer'')"
    by (simp_all add: new_record_fields userData_fields)
  have "d = new_record clk (reqbody req)"
    if new: "userCollection (fst (app srv e clk s req)) = userCollection s @ [d]" for d
  proof (cases "findOne srv ''email'' ?v (userCollection s)")
    case (Inl err)
    with route new show ?thesis by (simp add: app_def post_user_def Let_def)
  next
    case (Inr found)
    show ?thesis
    proof (cases found)
      case None
      show ?thesis
      proof (cases "insertOne srv (oid clk) (userData clk (reqbody req)) (userCollection s)")
        case (Inl err)
        with route new Inr None show ?thesis by (simp add: app_def post_user_def Let_def)
      next
        case inserted: (Inr r)
        obtain c i where r: "r = (c, i)" by (cases r)
        with inserted have "c = userCollection s @ [new_record clk (reqbody req)]"
          by (simp add: insertOne_appends new_record_def)
        with route new Inr None inserted r show ?thesis
          by (simp add: app_def post_user_def Let_def)
      qed
    next
      case (Some u)
      have "length (userCollection (fst (app srv e clk s req))) = length (userCollection s)"
        using route Inr Some
        by (simp add: app_def post_user_def Let_def updateOne_def length_update_first)
      with new show ?thesis by simp
    qed
  qed
  with role show ?thesis by blast
qed

theorem created_record_is_customer_witness:
  "path (login_request [(''email'', JStr ''a@x.com''), (''role'', JStr ''admin'')]) = PostUser \<and>
   userCollection (fst (app example_server example_env example_clock (store_of [])
       (login_request [(''email'', JStr ''a@x.com''), (''role'', JStr ''admin'')])))
     = userCollection (store_of []) @
         [[(''email'', JStr ''a@x.com''), (''role'', JStr ''customer''),
           (''created_at'', JStr ''2023-11-14T22:13:20.000Z''),
           (''last_loggedIn'', JStr ''2023-11-14T22:13:20.001Z''), (''_id'', JOid 7)]] \<and>
   doc_get [(''email'', JStr ''a@x.com''), (''role'', JStr ''customer''),
            (''created_at'', JStr ''2023-11-14T22:13:20.000Z''),
            (''last_loggedIn'', JStr ''2023-11-14T22:13:20.001Z''), (''_id'', JOid 7)] ''role''
     = Some (JStr ''customer'')"
proof -
  have new: "userCollection (fst (app example_server example_env example_clock (store_of [])
       (login_request [(''email'', JStr ''a@x.com''), (''role'', JStr ''admin'')])))
     = userCollection (store_of []) @
         [[(''email'', JStr ''a@x.com''), (''role'', JStr ''customer''),
           (''created_at'', JStr ''2023-11-14T22:13:20.000Z''),
           (''last_loggedIn'', JStr ''2023-11-14T22:13:20.001Z''), (''_id'', JOid 7)]]"
    by (simp add: login_request_def post_user_def userData_def example_defs model_defs)
  from created_record_is_customer [of
      "login_request [(''email'', JStr ''a@x.com''), (''role'', JStr ''admin'')]"
      example_clock example_server example_env "store_of []"]
  have "\<forall>d. userCollection (fst (app example_server example_env example_clock (store_of [])
       (login_request [(''email'', JStr ''a@x.com''), (''role'', JStr ''admin'')])))
     = userCollection (store_of []) @ [d] \<longrightarrow> doc_get d ''role'' = Some (JStr ''customer'')"
    by (simp add: login_request_def)
  with new have "doc_get [(''email'', JStr ''a@x.com''), (''role'', JStr ''customer''),
            (''created_at'', JStr ''2023-11-14T22:13:20.000Z''),
            (''last_loggedIn'', JStr ''2023-11-14T22:13:20.001Z''), (''_id'', JOid 7)] ''role''
     = Some (JStr ''customer'')"
    by blast
  with new show ?thesis by (simp add: login_request_def)
qed

section \<open>Tokens\<close>

text \<open>
  Claim C6, as the code has it. With a secret configured, \<^verbatim>\<open>jwt.sign\<close> of the claim
  \<^verbatim>\<open>{email: a}\<close> at the time \<open>seconds clk\<close> yields the token of the payload
  \<^verbatim>\<open>{email: a, iat, exp}\<close>, where \<^verbatim>\<open>iat\<close> is the time of issue and \<^verbatim>\<open>exp\<close> is
  365 days later; \<open>verifyToken\<close>, run on a request with that token before the expiry,
  hands on exactly this payload as \<^verbatim>\<open>req.user\<close>. Its email is the one issued.
\<close>

theorem token_round_trip:
  assumes secret: "ACCESS_TOKEN_SECRET e = Some key" "key \<noteq> []"
    and issued: "token req = Some (Signed
                   [(''email'', JStr a), (''iat'', JNum (seconds clk)),
                    (''exp'', JNum (seconds clk + expiresIn))] key)"
    and in_time: "seconds clk' < seconds clk + expiresIn"
  shows "jwt_sign [(''email'', JStr a)] (ACCESS_TOKEN_SECRET e) (seconds clk)
           = Inr (Signed
               [(''email'', JStr a), (''iat'', JNum (seconds clk)),
                (''exp'', JNum (seconds clk + expiresIn))] key) \<and>
         verifyToken e clk' req
           = Next [(''email'', JStr a), (''iat'', JNum (seconds clk)),
                   (''exp'', JNum (seconds clk + expiresIn))] \<and>
         doc_get [(''email'', JStr a), (''iat'', JNum (seconds clk)),
                  (''exp'', JNum (seconds clk + expiresIn))] ''email'' = Some (JStr a)"
proof -
  have sign: "jwt_sign [(''email'', JStr a)] (ACCESS_TOKEN_SECRET e) (seconds clk)
           = Inr (Signed
               [(''email'', JStr a), (''iat'', JNum (seconds clk)),
                (''exp'', JNum (seconds clk + expiresIn))] key)"
    using secret
    by (simp add: jwt_sign_def timestamp_def claim_ok_def doc_get_def doc_set_def)
  have verify: "jwt_verify (Signed
               [(''email'', JStr a), (''iat'', JNum (seconds clk)),
                (''exp'', JNum (seconds clk + expiresIn))] key) (Some key) (seconds clk')
           = Inr [(''email'', JStr a), (''iat'', JNum (seconds clk)),
                   (''exp'', JNum (seconds clk + expiresIn))]"
    using secret in_time
    by (simp add: jwt_verify_def not_before_def expired_def doc_get_def)
  from verify secret issued have "verifyToken e clk' req
           = Next [(''email'', JStr a), (''iat'', JNum (seconds clk)),
                   (''exp'', JNum (seconds clk + expiresIn))]"
    by (simp add: verifyToken_def)
  with sign show ?thesis by (simp add: doc_get_def)
qed

theorem token_round_trip_witness:
  "jwt_sign [(''email'', JStr ''a@x.com'')] (ACCESS_TOKEN_SECRET example_env)
     (seconds example_clock) = Inr (credential_for (JStr ''a@x.com'')) \<and>
   verifyToken example_env (example_clock \<lparr> seconds := 1731535999 \<rparr>)
     \<lparr> path = GetAllUsers, token = Some (credential_for (JStr ''a@x.com'')), reqbody = [] \<rparr>
     = Next [(''email'', JStr ''a@x.com''), (''iat'', JNum 1700000000),
             (''exp'', JNum 1731536000)]"
  using token_round_trip [of example_env "''secret''"
      "\<lparr> path = GetAllUsers, token = Some (credential_for (JStr ''a@x.com'')), reqbody = [] \<rparr>"
      "''a@x.com''" example_clock "example_clock \<lparr> seconds := 1731535999 \<rparr>"]
  by (simp add: example_defs expiresIn_def)

text \<open>
  Claim C6 as stated fails: the identity that comes back for \<^verbatim>\<open>{email: "a@x.com"}\<close>
  has the fields \<^verbatim>\<open>iat\<close> and \<^verbatim>\<open>exp\<close> beside the email.
\<close>

theorem token_round_trip_counterexample:
  "post_jwt example_env example_clock (store_of [])
     \<lparr> path = PostJwt, token = None, reqbody = [(''email'', JStr ''a@x.com'')] \<rparr>
     = (store_of [],
        Sent \<lparr> status = 200, content = Success,
               cookie = Some (res_cookie ''token''
                 (Some (Signed [(''email'', JStr ''a@x.com''), (''iat'', JNum 1700000000),
                                (''exp'', JNum 1731536000)] ''secret''))
                 (jwt_cookie_options example_env)) \<rparr>) \<and>
   verifyToken example_env example_clock
     \<lparr> path = GetAllUsers,
       token = Some (Signed [(''email'', JStr ''a@x.com''), (''iat'', JNum 1700000000),
                             (''exp'', JNum 1731536000)] ''secret''),
       reqbody = [] \<rparr>
     = Next [(''email'', JStr ''a@x.com''), (''iat'', JNum 1700000000),
             (''exp'', JNum 1731536000)] \<and>
   [(''email'', JStr ''a@x.com''), (''iat'', JNum 1700000000), (''exp'', JNum 1731536000)]
     \<noteq> [(''email'', JStr ''a@x.com'')]"
  by (simp add: post_jwt_def example_defs model_defs)

text \<open>
  Claim C9, as the code has it. \<^verbatim>\<open>POST /jwt\<close> has no middleware and reads no cookie.
  With a secret configured, for every body that has no \<^verbatim>\<open>exp\<close> field and whose
  \<^verbatim>\<open>iat\<close> and \<^verbatim>\<open>nbf\<close>, if present, are numbers, it answers 200 with
  \<^verbatim>\<open>{success: true}\<close> and sets the cookie \<^verbatim>\<open>token\<close> to the signed body, stamped with
  \<^verbatim>\<open>iat\<close> and \<^verbatim>\<open>exp\<close>; every other field of the body, the email among them, is signed
  as the client sent it. The store is not consulted and does not change.
\<close>

theorem jwt_issued_without_authentication:
  assumes route: "path req = PostJwt"
    and secret: "ACCESS_TOKEN_SECRET e = Some key" "key \<noteq> []"
    and no_exp: "doc_get (reqbody req) ''exp'' = None"
    and numeric: "claim_ok (doc_get (reqbody req) ''iat'')"
      "claim_ok (doc_get (reqbody req) ''nbf'')"
  shows "app srv e clk s req =
           (s, Sent \<lparr> status = 200, content = Success,
                      cookie = Some (res_cookie ''token''
                        (Some (Signed
                           (doc_set ''exp''
                              (JNum (timestamp (reqbody req) (seconds clk) + expiresIn))
                              (doc_set ''iat'' (JNum (timestamp (reqbody req) (seconds clk)))
                                 (reqbody req)))
                           key))
                        (jwt_cookie_options e)) \<rparr>) \<and>
         (\<forall>k. k \<noteq> ''iat'' \<and> k \<noteq> ''exp'' \<longrightarrow>
            doc_get (doc_set ''exp'' (JNum (timestamp (reqbody req) (seconds clk) + expiresIn))
                       (doc_set ''iat'' (JNum (timestamp (reqbody req) (seconds clk)))
                          (reqbody req))) k
              = doc_get (reqbody req) k)"
proof -
  let ?claims = "doc_set ''exp'' (JNum (timestamp (reqbody req) (seconds clk) + expiresIn))
                   (doc_set ''iat'' (JNum (timestamp (reqbody req) (seconds clk))) (reqbody req))"
  from secret no_exp numeric
  have "jwt_sign (reqbody req) (ACCESS_TOKEN_SECRET e) (seconds clk) = Inr (Signed ?claims key)"
    by (simp add: jwt_sign_def claim_ok_def)
  with route have "app srv e clk s req =
             (s, Sent \<lparr> status = 200, content = Success,
                        cookie = Some (res_cookie ''token'' (Some (Signed ?claims key))
                                         (jwt_cookie_options e)) \<rparr>)"
    by (simp add: app_def post_jwt_def send_def)
  moreover
  have "\<forall>k. k \<noteq> ''iat'' \<and> k \<noteq> ''exp'' \<longrightarrow> doc_get ?claims k = doc_get (reqbody req) k"
    by (simp add: doc_get_doc_set)
  ultimately show ?thesis by simp
qed

theorem jwt_issued_without_authentication_witness:
  "path \<lparr> path = PostJwt, token = None, reqbody = [(''email'', JStr ''root@x.com'')] \<rparr>
     = PostJwt \<and>
   app example_server example_env example_clock
     (store_of [user_record 1 ''root@x.com'' ''admin''])
     \<lparr> path = PostJwt, token = None, reqbody = [(''email'', JStr ''root@x.com'')] \<rparr>
     = (store_of [user_record 1 ''root@x.com'' ''admin''],
        Sent \<lparr> status = 200, content = Success,
               cookie = Some (res_cookie ''token'' (Some (credential_for (JStr ''root@x.com'')))
                                (jwt_cookie_options example_env)) \<rparr>)"
  using jwt_issued_without_authentication [of
      "\<lparr> path = PostJwt, token = None, reqbody = [(''email'', JStr ''root@x.com'')] \<rparr>"
      example_env "''secret''" example_server example_clock
      "store_of [user_record 1 ''root@x.com'' ''admin'']"]
  by (simp add: example_defs claim_ok_def timestamp_def expiresIn_def doc_get_def doc_set_def)

text \<open>
  Claim C9 as stated fails: for a body with an \<^verbatim>\<open>exp\<close> field \<^verbatim>\<open>jwt.sign\<close> throws, so
  no credential is issued and \<^verbatim>\<open>{success: true}\<close> is not sent.
\<close>

theorem jwt_body_with_exp_counterexample:
  "app example_server example_env example_clock (store_of [])
     \<lparr> path = PostJwt, token = None,
       reqbody = [(''email'', JStr ''a@x.com''), (''exp'', JNum 4102444800)] \<rparr>
     = (store_of [], Thrown (Jwt ExpConflict))"
  by (simp add: post_jwt_def example_defs model_defs)

section \<open>Cookies\<close>

text \<open>
  Claim C8, on the code. \<^verbatim>\<open>GET /logout\<close> sends the cookie \<^verbatim>\<open>token\<close> empty and
  expiring at once, with the \<^verbatim>\<open>secure\<close> and \<^verbatim>\<open>sameSite\<close> attributes of
  \<^verbatim>\<open>POST /jwt\<close>, but without \<^verbatim>\<open>HttpOnly\<close>, which the cookie of \<^verbatim>\<open>POST /jwt\<close>
  carries: the two attribute profiles differ in every environment.
\<close>

theorem logout_cookie_lacks_httpOnly:
  "get_logout e s =
     (s, Sent \<lparr> status = 200, content = Success,
                cookie = Some \<lparr> cookie_name = ''token'', cookie_value = None,
                                HttpOnly = False, Secure = production e,
                                SameSite = Some (if production e then ''none'' else ''strict''),
                                expires_at_once = True \<rparr> \<rparr>) \<and>
   res_cookie ''token'' (Some t) (jwt_cookie_options e) =
     \<lparr> cookie_name = ''token'', cookie_value = Some t,
       HttpOnly = True, Secure = production e,
       SameSite = Some (if production e then ''none'' else ''strict''),
       expires_at_once = False \<rparr>"
  by (simp add: get_logout_def res_clearCookie_def res_cookie_def logout_cookie_options_def
      jwt_cookie_options_def send_def)

section \<open>Roles change by approval only\<close>

lemma guard_cases:
  "guard m s k = (s', out) \<Longrightarrow>
   (\<exists>r. m = Halt r \<and> s' = s \<and> out = Sent r) \<or>
   (\<exists>err. m = Raise err \<and> s' = s \<and> out = Thrown err) \<or>
   (\<exists>x. m = Next x \<and> k x = (s', out))"
  by (cases m) (auto simp: guard_def)

lemma roles_update_first_other:
  "k \<noteq> ''role'' \<Longrightarrow>
   roles (s \<lparr> userCollection := update_first q (doc_set k v) (userCollection s) \<rparr>) = roles s"
  by (simp add: roles_def update_first_preserves_field doc_get_doc_set)

lemma post_user_roles:
  assumes "post_user srv clk s req = (s', out)"
  shows "roles s' = roles s \<or>
         (\<exists>d. userCollection s' = userCollection s @ [d] \<and>
               doc_get d ''role'' = Some (JStr ''customer''))"
proof -
  let ?v = "doc_get (userData clk (reqbody req)) ''email''"
  show ?thesis
  proof (cases "findOne srv ''email'' ?v (userCollection s)")
    case (Inl err)
    with assms show ?thesis by (auto simp: post_user_def Let_def)
  next
    case (Inr found)
    show ?thesis
    proof (cases found)
      case None
      show ?thesis
      proof (cases "insertOne srv (oid clk) (userData clk (reqbody req)) (userCollection s)")
        case (Inl err)
        with assms Inr None show ?thesis by (auto simp: post_user_def Let_def)
      next
        case inserted: (Inr r)
        obtain c i where r: "r = (c, i)" by (cases r)
        with inserted have "c = userCollection s @ [new_record clk (reqbody req)]"
          by (simp add: insertOne_appends new_record_def)
        with assms Inr None inserted r
        have "userCollection s' = userCollection s @ [new_record clk (reqbody req)]"
          by (auto simp: post_user_def Let_def)
        then show ?thesis by (simp add: new_record_fields)
      qed
    next
      case (Some d)
      with assms Inr have "s' = s \<or> s' = s \<lparr> userCollection :=
          update_first (matches srv ''email'' ?v)
            (doc_set ''last_loggedIn'' (JStr (iso3 clk))) (userCollection s) \<rparr>"
        by (auto simp: post_user_def Let_def updateOne_def split: if_splits)
      then show ?thesis by (auto simp: roles_update_first_other)
    qed
  qed
qed

text \<open>
  Claim C7. One request takes the store from \<open>s\<close> to \<open>s'\<close>. Then the roles of the stored
  records are the same as before, record by record; or the request was \<^verbatim>\<open>POST /user\<close>
  and one record with the role \<^verbatim>\<open>customer\<close> was added after the others; or the request
  was \<^verbatim>\<open>PATCH /user/role/update/:email\<close> and passed \<open>verifyToken\<close> and
  \<open>verifyAdmin\<close>. In particular a login on an existing record and a seller request
  change no role.
\<close>

theorem role_changes_only_by_admin:
  assumes step: "app srv e clk s req = (s', out)"
  shows "roles s' = roles s \<or>
         (path req = PostUser \<and>
          (\<exists>d. userCollection s' = userCollection s @ [d] \<and>
                doc_get d ''role'' = Some (JStr ''customer''))) \<or>
         (\<exists>email user. path req = PatchUserRoleUpdate email \<and>
            verifyToken e clk req = Next user \<and> verifyAdmin srv s user = Next ())"
proof (cases "path req")
  case PostJwt
  with step show ?thesis by (auto simp: app_def post_jwt_def split: sum.splits)
next
  case GetLogout
  with step show ?thesis by (auto simp: app_def get_logout_def)
next
  case PostAddPlant
  with step show ?thesis
    by (auto simp: app_def post_add_plant_def roles_def split: sum.splits dest!: guard_cases)
next
  case PostUser
  with step have "post_user srv clk s req = (s', out)" by (simp add: app_def)
  from post_user_roles [OF this] PostUser show ?thesis by blast
next
  case (GetUserRole email)
  with step show ?thesis
    by (auto simp: app_def get_user_role_def split: sum.splits option.splits)
next
  case (GetOrdersSeller email)
  with step show ?thesis
    by (auto simp: app_def get_orders_seller_def dest!: guard_cases)
next
  case GetAllUsers
  with step show ?thesis
    by (auto simp: app_def get_all_users_def split: sum.splits dest!: guard_cases)
next
  case (PatchUserRoleUpdate email)
  with step have run: "guard (verifyToken e clk req) s (\<lambda>user.
     guard (verifyAdmin srv s user) s (\<lambda>_.
       (let role = doc_get (reqbody req) ''role'';
            updateDoc = approve role
        in if \<not> scalar (bson role) \<and>
              bad_update srv (bson role)
                (List.find (matches srv ''email'' (Some (JStr email))) (userCollection s))
           then (s, Thrown BadUpdate)
           else
             (case updateOne srv ''email'' (Some (JStr email)) updateDoc (userCollection s) of
                Inl err \<Rightarrow> (s, Thrown err)
              | Inr users \<Rightarrow>
                  (s \<lparr> userCollection := users \<rparr>,
                   Sent (send 200
                     (update_result (matches srv ''email'' (Some (JStr email))) updateDoc
                        (userCollection s)))))))) = (s', out)"
    by (simp add: app_def patch_user_role_update_def)
  show ?thesis
  proof (cases "verifyToken e clk req")
    case (Halt r)
    with run show ?thesis by (simp add: guard_def)
  next
    case (Raise err)
    with run show ?thesis by (simp add: guard_def)
  next
    case (Next user)
    show ?thesis
    proof (cases "verifyAdmin srv s user")
      case (Halt r)
      with Next run show ?thesis by (simp add: guard_def)
    next
      case (Raise err)
      with Next run show ?thesis by (simp add: guard_def)
    next
      case inner: (Next u)
      with Next PatchUserRoleUpdate show ?thesis by simp
    qed
  qed
next
  case (PatchBecameSellerRequest email)
  with step show ?thesis
    by (auto simp: app_def patch_became_seller_request_def Let_def updateOne_string
        roles_update_first_other dest!: guard_cases)
next
  case GetAdminStats
  with step show ?thesis
    by (auto simp: app_def get_admin_stats_def Let_def split: sum.splits if_splits
        dest!: guard_cases)
qed

theorem role_changes_only_by_admin_witness:
  "app example_server example_env example_clock
     (store_of [user_record 1 ''root@x.com'' ''admin'', seller_record])
     (login_request [(''email'', JStr ''s@x.com''), (''role'', JStr ''admin'')])
     = (store_of [user_record 1 ''root@x.com'' ''admin'',
          [(''_id'', JOid 2), (''email'', JStr ''s@x.com''), (''role'', JStr ''seller''),
           (''status'', JStr ''verified''), (''created_at'', JStr ''2020-01-01T00:00:00.000Z''),
           (''last_loggedIn'', JStr ''2023-11-14T22:13:20.002Z'')]],
        Sent (send 200 (UpdateResult 1 1))) \<and>
   roles (store_of [user_record 1 ''root@x.com'' ''admin'',
          [(''_id'', JOid 2), (''email'', JStr ''s@x.com''), (''role'', JStr ''seller''),
           (''status'', JStr ''verified''), (''created_at'', JStr ''2020-01-01T00:00:00.000Z''),
           (''last_loggedIn'', JStr ''2023-11-14T22:13:20.002Z'')]])
     = roles (store_of [user_record 1 ''root@x.com'' ''admin'', seller_record]) \<and>
   app example_server example_env example_clock
     (store_of [user_record 1 ''root@x.com'' ''admin'', user_record 3 ''c@x.com'' ''customer''])
     approve_request
     = (store_of [user_record 1 ''root@x.com'' ''admin'',
          [(''_id'', JOid 3), (''email'', JStr ''c@x.com''), (''role'', JStr ''seller''),
           (''status'', JStr ''verified'')]],
        Sent (send 200 (UpdateResult 1 1))) \<and>
   verifyAdmin example_server
     (store_of [user_record 1 ''root@x.com'' ''admin'', user_record 3 ''c@x.com'' ''customer''])
     [(''email'', JStr ''root@x.com''), (''iat'', JNum 1700000000), (''exp'', JNum 1731536000)]
     = Next ()"
proof -
  have login: "app example_server example_env example_clock
      (store_of [user_record 1 ''root@x.com'' ''admin'', seller_record])
      (login_request [(''email'', JStr ''s@x.com''), (''role'', JStr ''admin'')])
     = (store_of [user_record 1 ''root@x.com'' ''admin'',
          [(''_id'', JOid 2), (''email'', JStr ''s@x.com''), (''role'', JStr ''seller''),
           (''status'', JStr ''verified''), (''created_at'', JStr ''2020-01-01T00:00:00.000Z''),
           (''last_loggedIn'', JStr ''2023-11-14T22:13:20.002Z'')]],
        Sent (send 200 (UpdateResult 1 1)))"
    by (simp add: login_request_def seller_record_def post_user_def userData_def example_defs
        model_defs)
  have approval: "app example_server example_env example_clock
     (store_of [user_record 1 ''root@x.com'' ''admin'', user_record 3 ''c@x.com'' ''customer''])
     approve_request
     = (store_of [user_record 1 ''root@x.com'' ''admin'',
          [(''_id'', JOid 3), (''email'', JStr ''c@x.com''), (''role'', JStr ''seller''),
           (''status'', JStr ''verified'')]],
        Sent (send 200 (UpdateResult 1 1)))"
    by (simp add: approve_request_def patch_user_role_update_def approve_def example_defs
        model_defs)
  have tok: "verifyToken example_env example_clock approve_request
    = Next [(''email'', JStr ''root@x.com''), (''iat'', JNum 1700000000),
            (''exp'', JNum 1731536000)]"
    by (simp add: approve_request_def example_defs model_defs)
  from role_changes_only_by_admin [OF login] have unchanged:
    "roles (store_of [user_record 1 ''root@x.com'' ''admin'',
          [(''_id'', JOid 2), (''email'', JStr ''s@x.com''), (''role'', JStr ''seller''),
           (''status'', JStr ''verified''), (''created_at'', JStr ''2020-01-01T00:00:00.000Z''),
           (''last_loggedIn'', JStr ''2023-11-14T22:13:20.002Z'')]])
     = roles (store_of [user_record 1 ''root@x.com'' ''admin'', seller_record])"
    by (simp add: login_request_def seller_record_def user_record_def store_of_def)
  from role_changes_only_by_admin [OF approval] tok have gate:
    "verifyAdmin example_server
       (store_of [user_record 1 ''root@x.com'' ''admin'', user_record 3 ''c@x.com'' ''customer''])
       [(''email'', JStr ''root@x.com''), (''iat'', JNum 1700000000),
        (''exp'', JNum 1731536000)] = Next ()"
    by (simp add: approve_request_def user_record_def store_of_def roles_def doc_get_def)
  from login unchanged approval gate show ?thesis by simp
qed

end
